theory Spec2Isabelle
  imports Main "HOL-Library.AList" "HOL-Library.Finite_Map"
begin

section \<open>Documents\<close>

text \<open>
  A document is what \<^verbatim>\<open>json.loads\<close> returns: \<^verbatim>\<open>None\<close>, a bool, a number, a
  \<^verbatim>\<open>str\<close>, a \<^verbatim>\<open>list\<close> or a \<^verbatim>\<open>dict\<close> with string keys. A \<^verbatim>\<open>dict\<close> keeps its
  insertion order, so it is an association list; a new key goes to the end. Numbers are
  Python's unbounded integers; floating-point numbers are outside this model. A string is
  the list of its code points, each below 256.
\<close>

datatype json =
    JNull
  | JBool bool
  | JNum int
  | JStr string
  | JArr "json list"
  | JObj "(string \<times> json) list"

text \<open>
  The exceptions the pointer and patch functions raise, one constructor for each class and
  raise site. In the words of the specification: \<open>KeyError_add_exists\<close> is TargetExists,
  \<open>KeyError_replace_missing\<close> and \<open>KeyError_key\<close> are NotFound, \<open>IndexError\<close> is
  IndexOutOfRange, \<open>KeyError_dash\<close> is InvalidToken, \<open>KeyError_root\<close> is
  RootRemovalForbidden, \<open>ValueError_pointer\<close> is MalformedPointer, \<open>ValueError_from\<close> and
  \<open>ValueError_path\<close> are MalformedOperation, \<open>AssertionError\<close> is PatchAssertionFailed.
\<close>

datatype error =
    KeyError_dash                         \<comment> \<open>\<^verbatim>\<open>KeyError("'-' is not valid for get operations")\<close>\<close>
  | KeyError_key string                   \<comment> \<open>\<^verbatim>\<open>cur[t]\<close>, \<^verbatim>\<open>del parent[last]\<close> on a dict without the key\<close>
  | KeyError_add_exists string            \<comment> \<open>\<^verbatim>\<open>KeyError(f"Add target exists: {pointer}")\<close>\<close>
  | KeyError_replace_missing string       \<comment> \<open>\<^verbatim>\<open>KeyError(f"Replace target missing: {pointer}")\<close>\<close>
  | KeyError_root                         \<comment> \<open>\<^verbatim>\<open>KeyError("Cannot remove document root")\<close>\<close>
  | ValueError_pointer string             \<comment> \<open>\<^verbatim>\<open>ValueError(f"Invalid JSON Pointer ...: {ptr}")\<close>\<close>
  | ValueError_int string                 \<comment> \<open>\<^verbatim>\<open>int(t)\<close> on a string that is no integer literal\<close>
  | ValueError_from nat json              \<comment> \<open>\<^verbatim>\<open>ValueError(f"Patch[{i}] missing 'from' for {optype}")\<close>\<close>
  | ValueError_path nat                   \<comment> \<open>\<^verbatim>\<open>ValueError(f"Patch[{i}] missing valid 'path'")\<close>\<close>
  | ValueError_unsupported json           \<comment> \<open>\<^verbatim>\<open>ValueError(f"Unsupported op: {optype}")\<close>\<close>
  | IndexError                            \<comment> \<open>list index out of range\<close>
  | TypeError                             \<comment> \<open>subscripting, \<^verbatim>\<open>in\<close> or \<^verbatim>\<open>del\<close> on a scalar\<close>
  | AttributeError                        \<comment> \<open>\<^verbatim>\<open>.setdefault\<close> or \<^verbatim>\<open>.get\<close> on a value that has none\<close>
  | OverflowError                         \<comment> \<open>\<^verbatim>\<open>list.insert\<close> with an index that does not fit a C \<^verbatim>\<open>ssize_t\<close>\<close>
  | AssertionError nat string json json   \<comment> \<open>\<^verbatim>\<open>AssertionError(f"Patch[{i}] test failed at {path}: {cur!r} != {value!r}")\<close>\<close>

section \<open>Python built-ins the code relies on\<close>

text \<open>\<^verbatim>\<open>s.replace(a + b, new)\<close> for a pattern of two characters: non-overlapping
  occurrences, left to right.\<close>

fun replace2 :: "char \<Rightarrow> char \<Rightarrow> string \<Rightarrow> string \<Rightarrow> string" where
  "replace2 a b new (x # y # s) =
     (if x = a \<and> y = b then new @ replace2 a b new s else x # replace2 a b new (y # s))"
| "replace2 a b new s = s"

text \<open>\<^verbatim>\<open>s.split(c)\<close> for a separator of one character.\<close>

fun split_on :: "char \<Rightarrow> string \<Rightarrow> string list" where
  "split_on c [] = [[]]"
| "split_on c (x # xs) =
     (if x = c then [] # split_on c xs
      else (case split_on c xs of [] \<Rightarrow> [[x]] | w # ws \<Rightarrow> (x # w) # ws))"

text \<open>
  \<^verbatim>\<open>int(s)\<close> on a string: surrounding whitespace is stripped, one sign is allowed, then
  decimal digits, where single underscores may stand between digits; a string with more
  than 4300 digits is refused (the interpreter's default limit). Among the code points
  below 256 the whitespace \<^verbatim>\<open>int\<close> strips is the tab, the four line breaks 10 to 13, the
  space, and the two code points 133 and 160; the only digits are \<open>0\<close> to \<open>9\<close>.
\<close>

definition is_space :: "char \<Rightarrow> bool" where
  "is_space c = (of_char c \<in> {9, 10, 11, 12, 13, 32, 133, 160 :: nat})"

definition strip :: "string \<Rightarrow> string" where
  "strip s = rev (dropWhile is_space (rev (dropWhile is_space s)))"

definition is_digit :: "char \<Rightarrow> bool" where
  "is_digit c = (48 \<le> (of_char c :: nat) \<and> (of_char c :: nat) \<le> 57)"

definition digit_val :: "char \<Rightarrow> nat" where
  "digit_val c = of_char c - 48"

fun py_digits :: "nat \<Rightarrow> string \<Rightarrow> nat option" where
  "py_digits acc [] = Some acc"
| "py_digits acc [c] = (if is_digit c then Some (10 * acc + digit_val c) else None)"
| "py_digits acc (c # d # ds) =
     (if c = CHR ''_'' then
        (if is_digit d then py_digits (10 * acc + digit_val d) ds else None)
      else if is_digit c then py_digits (10 * acc + digit_val c) (d # ds)
      else None)"

definition max_str_digits :: nat where
  "max_str_digits = 4300"

definition py_nat :: "string \<Rightarrow> nat option" where
  "py_nat s = (case s of [] \<Rightarrow> None
     | c # cs \<Rightarrow>
         if \<not> is_digit c \<or> max_str_digits < length (filter is_digit s) then None
         else py_digits (digit_val c) cs)"

definition py_int :: "string \<Rightarrow> int option" where
  "py_int s = (case strip s of [] \<Rightarrow> None
     | c # cs \<Rightarrow>
         if c = CHR ''-'' then map_option (\<lambda>n. - int n) (py_nat cs)
         else if c = CHR ''+'' then map_option int (py_nat cs)
         else map_option int (py_nat (c # cs)))"

text \<open>\<^verbatim>\<open>xs[idx]\<close>, \<^verbatim>\<open>xs[idx] = v\<close> and \<^verbatim>\<open>del xs[idx]\<close> accept an index from \<open>-len\<close> to
  \<open>len - 1\<close>; a negative index counts from the end. The result is the position, or
  \<open>None\<close> where Python raises \<^verbatim>\<open>IndexError\<close>.\<close>

definition py_index :: "'a list \<Rightarrow> int \<Rightarrow> nat option" where
  "py_index xs idx =
     (let n = int (length xs); j = (if idx < 0 then idx + n else idx)
      in if 0 \<le> j \<and> j < n then Some (nat j) else None)"

text \<open>\<^verbatim>\<open>xs.insert(idx, v)\<close>: a negative index counts from the end and is raised to 0, an
  index beyond the end is lowered to the length. The index is converted to a C
  \<^verbatim>\<open>ssize_t\<close> first, which raises \<^verbatim>\<open>OverflowError\<close> outside \<open>-2\<^sup>6\<^sup>3\<close> to \<open>2\<^sup>6\<^sup>3 - 1\<close>
  (\<^verbatim>\<open>sys.maxsize\<close> of a 64-bit build); the result is \<open>None\<close> then.\<close>

definition ssize_t_max :: int where
  "ssize_t_max = 2 ^ 63 - 1"

definition py_insert_pos :: "'a list \<Rightarrow> int \<Rightarrow> nat" where
  "py_insert_pos xs idx =
     (let n = int (length xs); j = (if idx < 0 then idx + n else idx)
      in if j < 0 then 0 else if n < j then length xs else nat j)"

definition py_insert :: "'a list \<Rightarrow> int \<Rightarrow> 'a \<Rightarrow> 'a list option" where
  "py_insert xs idx v =
     (if idx < - ssize_t_max - 1 \<or> ssize_t_max < idx then None
      else Some (take (py_insert_pos xs idx) xs @ v # drop (py_insert_pos xs idx) xs))"

text \<open>\<^verbatim>\<open>del xs[j]\<close> at a position that is in range.\<close>

definition del_at :: "'a list \<Rightarrow> nat \<Rightarrow> 'a list" where
  "del_at xs j = take j xs @ drop (Suc j) xs"

text \<open>\<^verbatim>\<open>sub in s\<close> on two strings: \<open>sub\<close> occurs in \<open>s\<close>.\<close>

fun str_contains :: "string \<Rightarrow> string \<Rightarrow> bool" where
  "str_contains [] sub = (sub = [])"
| "str_contains (c # cs) sub = (take (length sub) (c # cs) = sub \<or> str_contains cs sub)"

section \<open>JSON Pointer helpers\<close>

definition unescape_token :: "string \<Rightarrow> string" where
  "unescape_token token =
     replace2 (CHR ''~'') (CHR ''0'') ''~'' (replace2 (CHR ''~'') (CHR ''1'') ''/'' token)"

definition split_pointer :: "string \<Rightarrow> error + string list" where
  "split_pointer ptr =
     (if ptr = '''' \<or> ptr = ''/'' then Inr []
      else if take 1 ptr \<noteq> ''/'' then Inl (ValueError_pointer ptr)
      else Inr (map unescape_token (tl (split_on (CHR ''/'') ptr))))"

text \<open>
  The reading of the specification: one pass over the raw token in which \<open>~1\<close> becomes
  \<open>/\<close> and \<open>~0\<close> becomes \<open>~\<close>, each escape consumed as it is met and nothing that was
  produced read again.
\<close>

fun unescape_independent :: "string \<Rightarrow> string" where
  "unescape_independent (x # y # s) =
     (if x = CHR ''~'' \<and> y = CHR ''1'' then CHR ''/'' # unescape_independent s
      else if x = CHR ''~'' \<and> y = CHR ''0'' then CHR ''~'' # unescape_independent s
      else x # unescape_independent (y # s))"
| "unescape_independent s = s"

section \<open>Navigation\<close>

text \<open>One round of the loop of \<^verbatim>\<open>pointer_get\<close>: the step from \<open>cur\<close> along token \<open>t\<close>.\<close>

definition get_step :: "json \<Rightarrow> string \<Rightarrow> error + json" where
  "get_step cur t =
     (case cur of
        JArr xs \<Rightarrow>
          if t = ''-'' then Inl KeyError_dash
          else (case py_int t of
                  None \<Rightarrow> Inl (ValueError_int t)
                | Some idx \<Rightarrow>
                    (case py_index xs idx of
                       None \<Rightarrow> Inl IndexError
                     | Some j \<Rightarrow> Inr (xs ! j)))
      | JObj kvs \<Rightarrow>
          (case map_of kvs t of
             None \<Rightarrow> Inl (KeyError_key t)
           | Some c \<Rightarrow> Inr c)
      | _ \<Rightarrow> Inl TypeError)"

fun get_loop :: "json \<Rightarrow> string list \<Rightarrow> error + json" where
  "get_loop cur [] = Inr cur"
| "get_loop cur (t # ts) =
     (case get_step cur t of
        Inl e \<Rightarrow> Inl e
      | Inr c \<Rightarrow> get_loop c ts)"

definition pointer_get :: "json \<Rightarrow> string \<Rightarrow> error + json" where
  "pointer_get doc pointer =
     (case split_pointer pointer of
        Inl e \<Rightarrow> Inl e
      | Inr tokens \<Rightarrow> get_loop doc tokens)"

text \<open>
  \<^verbatim>\<open>_ensure_parent\<close> walks the tokens before the last one and returns a reference to the
  container it reaches; its caller then changes that container in place. Here the
  caller's change is the argument \<open>f\<close> (from the parent to the changed parent and the
  exception raised, if any), the list is \<^verbatim>\<open>tokens[:-1]\<close>, and the result is the document
  as it stands afterwards, rebuilt around the changed parent. \<^verbatim>\<open>cur.setdefault(t, {})\<close>
  writes an empty object under a key that is absent, and that stays in the document when
  an exception is raised further down.
\<close>

fun ensure_parent ::
  "(json \<Rightarrow> json \<times> error option) \<Rightarrow> json \<Rightarrow> string list \<Rightarrow> json \<times> error option" where
  "ensure_parent f cur [] = f cur"
| "ensure_parent f cur (t # ts) =
     (case cur of
        JArr xs \<Rightarrow>
          (case py_int t of
             None \<Rightarrow> (cur, Some (ValueError_int t))
           | Some idx \<Rightarrow>
               (case py_index xs idx of
                  None \<Rightarrow> (cur, Some IndexError)
                | Some j \<Rightarrow>
                    (case ensure_parent f (xs ! j) ts of
                       (c, r) \<Rightarrow> (JArr (xs[j := c]), r))))
      | JObj kvs \<Rightarrow>
          (case ensure_parent f (case map_of kvs t of None \<Rightarrow> JObj [] | Some c \<Rightarrow> c) ts of
             (c, r) \<Rightarrow> (JObj (AList.update t c kvs), r))
      | _ \<Rightarrow> (cur, Some AttributeError))"

text \<open>\<^verbatim>\<open>return doc\<close> after the change in place.\<close>

fun returning :: "json \<times> error option \<Rightarrow> json \<times> (error + json)" where
  "returning (doc, None) = (doc, Inr doc)"
| "returning (doc, Some e) = (doc, Inl e)"

section \<open>Pointer operations\<close>

text \<open>
  Each operation returns the document object it was given as it stands afterwards (it is
  changed in place, also when an exception is raised), and the exception or the value
  returned.
\<close>

definition add_last :: "string \<Rightarrow> string \<Rightarrow> json \<Rightarrow> json \<Rightarrow> json \<times> error option" where
  "add_last pointer lst v parent =
     (case parent of
        JArr xs \<Rightarrow>
          if lst = ''-'' then (JArr (xs @ [v]), None)
          else (case py_int lst of
                  None \<Rightarrow> (parent, Some (ValueError_int lst))
                | Some idx \<Rightarrow>
                    (case py_insert xs idx v of
                       None \<Rightarrow> (parent, Some OverflowError)
                     | Some ys \<Rightarrow> (JArr ys, None)))
      | JObj kvs \<Rightarrow>
          if map_of kvs lst \<noteq> None then (parent, Some (KeyError_add_exists pointer))
          else (JObj (AList.update lst v kvs), None)
      | JStr s \<Rightarrow>
          if str_contains s lst then (parent, Some (KeyError_add_exists pointer))
          else (parent, Some TypeError)
      | _ \<Rightarrow> (parent, Some TypeError))"

definition pointer_add :: "json \<Rightarrow> string \<Rightarrow> json \<Rightarrow> json \<times> (error + json)" where
  "pointer_add doc pointer v =
     (case split_pointer pointer of
        Inl e \<Rightarrow> (doc, Inl e)
      | Inr tokens \<Rightarrow>
          if tokens = [] then (doc, Inr v)
          else returning (ensure_parent (add_last pointer (last tokens) v) doc (butlast tokens)))"

definition replace_last :: "string \<Rightarrow> string \<Rightarrow> json \<Rightarrow> json \<Rightarrow> json \<times> error option" where
  "replace_last pointer lst v parent =
     (case parent of
        JArr xs \<Rightarrow>
          (case py_int lst of
             None \<Rightarrow> (parent, Some (ValueError_int lst))
           | Some idx \<Rightarrow>
               (case py_index xs idx of
                  None \<Rightarrow> (parent, Some IndexError)
                | Some j \<Rightarrow> (JArr (xs[j := v]), None)))
      | JObj kvs \<Rightarrow>
          if map_of kvs lst = None then (parent, Some (KeyError_replace_missing pointer))
          else (JObj (AList.update lst v kvs), None)
      | JStr s \<Rightarrow>
          if \<not> str_contains s lst then (parent, Some (KeyError_replace_missing pointer))
          else (parent, Some TypeError)
      | _ \<Rightarrow> (parent, Some TypeError))"

definition pointer_replace :: "json \<Rightarrow> string \<Rightarrow> json \<Rightarrow> json \<times> (error + json)" where
  "pointer_replace doc pointer v =
     (case split_pointer pointer of
        Inl e \<Rightarrow> (doc, Inl e)
      | Inr tokens \<Rightarrow>
          if tokens = [] then (doc, Inr v)
          else returning (ensure_parent (replace_last pointer (last tokens) v) doc (butlast tokens)))"

definition remove_last :: "string \<Rightarrow> json \<Rightarrow> json \<times> error option" where
  "remove_last lst parent =
     (case parent of
        JArr xs \<Rightarrow>
          (case py_int lst of
             None \<Rightarrow> (parent, Some (ValueError_int lst))
           | Some idx \<Rightarrow>
               (case py_index xs idx of
                  None \<Rightarrow> (parent, Some IndexError)
                | Some j \<Rightarrow> (JArr (del_at xs j), None)))
      | JObj kvs \<Rightarrow>
          if map_of kvs lst = None then (parent, Some (KeyError_key lst))
          else (JObj (AList.delete lst kvs), None)
      | _ \<Rightarrow> (parent, Some TypeError))"

definition pointer_remove :: "json \<Rightarrow> string \<Rightarrow> json \<times> (error + json)" where
  "pointer_remove doc pointer =
     (case split_pointer pointer of
        Inl e \<Rightarrow> (doc, Inl e)
      | Inr tokens \<Rightarrow>
          if tokens = [] then (doc, Inl KeyError_root)
          else returning (ensure_parent (remove_last (last tokens)) doc (butlast tokens)))"

section \<open>JSON Patch\<close>

text \<open>
  \<^verbatim>\<open>cur != value\<close> is the negation of Python's \<^verbatim>\<open>==\<close>: lists are compared element by
  element, dicts key by key whatever the order of their keys, and a bool equals the
  number 1 or 0.
\<close>

fun py_eq :: "json \<Rightarrow> json \<Rightarrow> bool" where
  "py_eq JNull JNull = True"
| "py_eq (JBool a) (JBool b) = (a = b)"
| "py_eq (JBool a) (JNum n) = (n = (if a then 1 else 0))"
| "py_eq (JNum n) (JBool a) = (n = (if a then 1 else 0))"
| "py_eq (JNum a) (JNum b) = (a = b)"
| "py_eq (JStr a) (JStr b) = (a = b)"
| "py_eq (JArr xs) (JArr ys) = list_all2 py_eq xs ys"
| "py_eq (JObj a) (JObj b) =
     (length a = length b \<and>
      (\<forall>(k, v) \<in> set a. case map_of b k of None \<Rightarrow> False | Some w \<Rightarrow> py_eq v w))"
| "py_eq _ _ = False"

text \<open>\<^verbatim>\<open>op.get(k)\<close>: \<^verbatim>\<open>None\<close> when the key is absent.\<close>

definition op_get :: "(string \<times> json) list \<Rightarrow> string \<Rightarrow> json" where
  "op_get op k = (case map_of op k of None \<Rightarrow> JNull | Some v \<Rightarrow> v)"

fun is_str :: "json \<Rightarrow> bool" where
  "is_str (JStr s) = True"
| "is_str _ = False"

fun the_str :: "json \<Rightarrow> string" where
  "the_str (JStr s) = s"
| "the_str _ = []"

text \<open>\<^verbatim>\<open>json.loads(json.dumps(val))\<close> builds a new value equal to \<open>val\<close>.\<close>

definition deep_copy :: "json \<Rightarrow> json" where
  "deep_copy val = val"

text \<open>\<^verbatim>\<open>doc = pointer_...(doc, ...)\<close>: the variable takes the returned value; when the call
  raises, it still names the object that was passed, as the call left it.\<close>

fun rebind :: "json \<times> (error + json) \<Rightarrow> json \<times> error option" where
  "rebind (doc, Inl e) = (doc, Some e)"
| "rebind (doc, Inr d) = (d, None)"

text \<open>
  One round of the loop of \<^verbatim>\<open>apply_patch\<close>, for the operation \<open>op\<close> at index \<open>i\<close>. The
  result is the value of the variable \<^verbatim>\<open>doc\<close> after the round and the exception raised,
  if any.
\<close>

definition apply_op :: "nat \<Rightarrow> json \<Rightarrow> json \<Rightarrow> json \<times> error option" where
  "apply_op i doc op =
     (case op of
        JObj kvs \<Rightarrow>
          (let optype = op_get kvs ''op'';
               path = op_get kvs ''path'';
               v = op_get kvs ''value'';
               from_ptr = op_get kvs ''from''
           in if (optype = JStr ''move'' \<or> optype = JStr ''copy'') \<and> \<not> is_str from_ptr
              then (doc, Some (ValueError_from i optype))
              else if \<not> is_str path then (doc, Some (ValueError_path i))
              else if optype = JStr ''add'' then rebind (pointer_add doc (the_str path) v)
              else if optype = JStr ''remove'' then rebind (pointer_remove doc (the_str path))
              else if optype = JStr ''replace'' then
                rebind (pointer_replace doc (the_str path) v)
              else if optype = JStr ''move'' then
                (case pointer_get doc (the_str from_ptr) of
                   Inl e \<Rightarrow> (doc, Some e)
                 | Inr val \<Rightarrow>
                     (case rebind (pointer_remove doc (the_str from_ptr)) of
                        (d, Some e) \<Rightarrow> (d, Some e)
                      | (d, None) \<Rightarrow> rebind (pointer_add d (the_str path) val)))
              else if optype = JStr ''copy'' then
                (case pointer_get doc (the_str from_ptr) of
                   Inl e \<Rightarrow> (doc, Some e)
                 | Inr val \<Rightarrow> rebind (pointer_add doc (the_str path) (deep_copy val)))
              else if optype = JStr ''test'' then
                (case pointer_get doc (the_str path) of
                   Inl e \<Rightarrow> (doc, Some e)
                 | Inr cur \<Rightarrow>
                     if \<not> py_eq cur v then (doc, Some (AssertionError i (the_str path) cur v))
                     else (doc, None))
              else (doc, Some (ValueError_unsupported optype)))
      | _ \<Rightarrow> (doc, Some AttributeError))"

fun apply_patch_loop :: "nat \<Rightarrow> json \<Rightarrow> json list \<Rightarrow> json \<times> error option" where
  "apply_patch_loop i doc [] = (doc, None)"
| "apply_patch_loop i doc (op # ops) =
     (case apply_op i doc op of
        (d, Some e) \<Rightarrow> (d, Some e)
      | (d, None) \<Rightarrow> apply_patch_loop (Suc i) d ops)"

text \<open>
  \<^verbatim>\<open>apply_patch\<close>: the document returned, or, with an exception, the document the variable
  \<^verbatim>\<open>doc\<close> named when it was raised.
\<close>

definition apply_patch :: "json \<Rightarrow> json list \<Rightarrow> json \<times> error option" where
  "apply_patch doc patch = apply_patch_loop 0 doc patch"

text \<open>The objects \<^verbatim>\<open>setdefault\<close> leaves behind along tokens that name absent keys:
  \<^verbatim>\<open>{}\<close> for no token, \<^verbatim>\<open>{t: ...}\<close> around the rest otherwise.\<close>

fun nested_empty :: "string list \<Rightarrow> json" where
  "nested_empty [] = JObj []"
| "nested_empty (t # ts) = JObj [(t, nested_empty ts)]"

section \<open>What Python's equality compares\<close>




section \<open>Atomic write with backup\<close>

text \<open>
  The files are a map from path to content. What \<^verbatim>\<open>write_atomic\<close> takes from its
  environment is a parameter: the serialisation \<^verbatim>\<open>json.dumps(obj, indent=2,
  ensure_ascii=False).encode("utf-8")\<close>, the SHA-256 hex digest of \<^verbatim>\<open>hashlib\<close>, the
  directory \<^verbatim>\<open>os.path.dirname(os.path.abspath(path)) or "."\<close>, the random characters
  \<^verbatim>\<open>tempfile.mkstemp\<close> puts into the name of the file it creates, and the time
  \<^verbatim>\<open>datetime.datetime.utcnow()\<close>. Directories, and calls that fail for lack of space or
  permission, are not modelled.
\<close>

type_synonym fs = "string \<rightharpoonup> string"

record datetime =
  year :: nat
  month :: nat
  day :: nat
  hour :: nat
  minute :: nat
  second :: nat

record os_env =
  json_dumps :: "json \<Rightarrow> string"
  hexdigest :: "string \<Rightarrow> string"
  abs_dirname :: "string \<Rightarrow> string"
  random_name :: "string"
  utcnow :: "datetime"

definition digit_char :: "nat \<Rightarrow> char" where
  "digit_char d = ''0123456789'' ! (d mod 10)"

definition pad2 :: "nat \<Rightarrow> string" where
  "pad2 n = [digit_char (n div 10), digit_char n]"

definition pad4 :: "nat \<Rightarrow> string" where
  "pad4 n = [digit_char (n div 1000), digit_char (n div 100), digit_char (n div 10), digit_char n]"

text \<open>\<^verbatim>\<open>.strftime("%Y%m%dT%H%M%SZ")\<close>, for a year of four digits.\<close>

definition strftime :: "datetime \<Rightarrow> string" where
  "strftime dt =
     pad4 (year dt) @ pad2 (month dt) @ pad2 (day dt) @ ''T'' @
     pad2 (hour dt) @ pad2 (minute dt) @ pad2 (second dt) @ ''Z''"

definition sha256_bytes :: "os_env \<Rightarrow> string \<Rightarrow> string" where
  "sha256_bytes e b = hexdigest e b"

text \<open>\<^verbatim>\<open>os.path.join(dir, name)\<close> for a relative \<open>name\<close>.\<close>

definition path_join :: "string \<Rightarrow> string \<Rightarrow> string" where
  "path_join d f = (if d \<noteq> [] \<and> last d \<noteq> CHR ''/'' then d @ ''/'' @ f else d @ f)"

text \<open>The path of the file \<^verbatim>\<open>tempfile.mkstemp(prefix=..., dir=...)\<close> creates.\<close>

definition mkstemp :: "os_env \<Rightarrow> string \<Rightarrow> string \<Rightarrow> string" where
  "mkstemp e prefix dir = path_join dir (prefix @ random_name e)"

definition write_bytes :: "string \<Rightarrow> string \<Rightarrow> fs \<Rightarrow> fs" where
  "write_bytes p data files = files(p \<mapsto> data)"

definition copy2 :: "string \<Rightarrow> string \<Rightarrow> fs \<Rightarrow> fs" where
  "copy2 src dst files = files(dst := files src)"

definition os_replace :: "string \<Rightarrow> string \<Rightarrow> fs \<Rightarrow> fs" where
  "os_replace src dst files = (files(dst := files src))(src := None)"

text \<open>
  The body of \<^verbatim>\<open>write_atomic\<close> up to, and without, the call of \<^verbatim>\<open>os.replace\<close>: the
  temporary file is created and written, and the backup is copied when \<open>make_backup\<close>
  holds and \<open>path\<close> exists. The result is the files as \<^verbatim>\<open>os.replace\<close> finds them.
\<close>

definition write_atomic_staged :: "os_env \<Rightarrow> string \<Rightarrow> json \<Rightarrow> bool \<Rightarrow> fs \<Rightarrow> fs" where
  "write_atomic_staged e path obj make_backup files =
     (let data = json_dumps e obj;
          new_hash = sha256_bytes e data;
          dirn = abs_dirname e path;
          tmp_path = mkstemp e ''.jsontmp-'' dirn;
          files1 = write_bytes tmp_path data (write_bytes tmp_path [] files)
      in if make_backup \<and> files1 path \<noteq> None
         then copy2 path (path @ ''.bak.'' @ strftime (utcnow e) @ ''.'' @ take 8 new_hash) files1
         else files1)"

text \<open>\<^verbatim>\<open>write_atomic\<close>: the files after the rename, and the pair it returns.\<close>

definition write_atomic ::
  "os_env \<Rightarrow> string \<Rightarrow> json \<Rightarrow> bool \<Rightarrow> fs \<Rightarrow> fs \<times> string \<times> string" where
  "write_atomic e path obj make_backup files =
     (os_replace (mkstemp e ''.jsontmp-'' (abs_dirname e path)) path
        (write_atomic_staged e path obj make_backup files),
      path, sha256_bytes e (json_dumps e obj))"

text \<open>An environment to run \<^verbatim>\<open>write_atomic\<close> in: the document \<^verbatim>\<open>{}\<close> and its digest,
  the directory \<open>/d\<close>, a temporary name, and 3 November 2026, 17:25:00.\<close>

definition ex_env :: os_env where
  "ex_env = \<lparr> json_dumps = (\<lambda>_. ''{}''),
     hexdigest = (\<lambda>_. ''44136fa355b3678a1146ad16f7e8649e94fb4fc21fe77e8310c060f61caaff8a''),
     abs_dirname = (\<lambda>_. ''/d''),
     random_name = ''k3x_9a2b'',
     utcnow = \<lparr> year = 2026, month = 11, day = 3, hour = 17, minute = 25, second = 0 \<rparr> \<rparr>"

section \<open>Facts about the built-ins and the navigation\<close>

lemma replace2_tilde_Cons:
  "c \<noteq> CHR ''~'' \<Longrightarrow>
   replace2 (CHR ''~'') b new (c # u) = c # replace2 (CHR ''~'') b new u"
  by (cases u) auto

lemma replace2_slash_head:
  "y \<noteq> CHR ''0'' \<Longrightarrow> y \<noteq> CHR ''1'' \<Longrightarrow>
   \<exists>h u. replace2 (CHR ''~'') (CHR ''1'') ''/'' (y # s) = h # u \<and> h \<noteq> CHR ''0''"
  by (cases s) auto

lemma unescape_token_single_pass: "unescape_token t = unescape_independent t"
  unfolding unescape_token_def
proof (induction t rule: unescape_independent.induct)
  case (1 x y s)
  show ?case
  proof (cases "x = CHR ''~''")
    case False
    then show ?thesis using 1 by (simp add: replace2_tilde_Cons)
  next
    case True
    note x = True
    show ?thesis
    proof (cases "y = CHR ''1''")
      case True
      then show ?thesis using 1 x by (simp add: replace2_tilde_Cons)
    next
      case False
      note y1 = False
      show ?thesis
      proof (cases "y = CHR ''0''")
        case True
        then show ?thesis using 1 x by (simp add: replace2_tilde_Cons)
      next
        case False
        from replace2_slash_head[OF False y1, of s] obtain h u where
          hu: "replace2 (CHR ''~'') (CHR ''1'') ''/'' (y # s) = h # u" and h: "h \<noteq> CHR ''0''"
          by blast
        have ih: "replace2 (CHR ''~'') (CHR ''0'') ''~''
                    (replace2 (CHR ''~'') (CHR ''1'') ''/'' (y # s))
                  = unescape_independent (y # s)"
          using 1(3) x y1 False by simp
        have "replace2 (CHR ''~'') (CHR ''1'') ''/'' (x # y # s) = CHR ''~'' # h # u"
          using x y1 hu by simp
        moreover have "replace2 (CHR ''~'') (CHR ''0'') ''~'' (CHR ''~'' # h # u)
            = CHR ''~'' # replace2 (CHR ''~'') (CHR ''0'') ''~'' (h # u)"
          using h by simp
        moreover have
          "unescape_independent (x # y # s) = CHR ''~'' # unescape_independent (y # s)"
          using x y1 False by simp
        ultimately show ?thesis using ih hu by simp
      qed
    qed
  qed
qed simp_all

lemma py_int_dash: "py_int ''-'' = None"
  by (simp add: py_int_def strip_def is_space_def py_nat_def max_str_digits_def)

lemma py_index_bound: "py_index xs idx = Some j \<Longrightarrow> j < length xs"
  by (auto simp: py_index_def Let_def split: if_splits)

lemma py_index_update: "py_index (xs[j := c]) idx = py_index xs idx"
  by (simp add: py_index_def)

lemma update_same: "map_of kvs t = Some c \<Longrightarrow> AList.update t c kvs = kvs"
  by (induction kvs) auto

lemma get_step_arr:
  "get_step (JArr xs) t = Inr c \<longleftrightarrow>
     (\<exists>idx j. py_int t = Some idx \<and> py_index xs idx = Some j \<and> c = xs ! j)"
  by (auto simp: get_step_def py_int_dash split: option.splits)

lemma get_step_obj: "get_step (JObj kvs) t = Inr c \<longleftrightarrow> map_of kvs t = Some c"
  by (auto simp: get_step_def split: option.splits)

lemma get_step_cases:
  assumes "get_step cur t = Inr c"
  obtains (arr) xs idx j where
      "cur = JArr xs" "py_int t = Some idx" "py_index xs idx = Some j" "c = xs ! j"
    | (obj) kvs where "cur = JObj kvs" "map_of kvs t = Some c"
  using assms by (cases cur) (auto simp: get_step_arr get_step_obj, auto simp: get_step_def)

text \<open>
  Where the tokens before the last resolve, \<^verbatim>\<open>_ensure_parent\<close> creates nothing: the
  caller's change \<open>f\<close> reaches the container \<^verbatim>\<open>pointer_get\<close> finds, the same tokens
  lead to the changed container afterwards, and a change that leaves the container as it
  was leaves the document as it was.
\<close>

lemma ensure_parent_resolved:
  assumes "get_loop doc ts = Inr parent"
  shows "\<exists>doc'. ensure_parent f doc ts = (doc', snd (f parent)) \<and>
           get_loop doc' ts = Inr (fst (f parent)) \<and>
           (fst (f parent) = parent \<longrightarrow> doc' = doc)"
  using assms
proof (induction ts arbitrary: doc)
  case Nil
  then show ?case by simp
next
  case (Cons t ts)
  from Cons.prems obtain c where
    step: "get_step doc t = Inr c" and rest: "get_loop c ts = Inr parent"
    by (auto split: sum.splits)
  from Cons.IH[OF rest] obtain c' where
    c': "ensure_parent f c ts = (c', snd (f parent))" "get_loop c' ts = Inr (fst (f parent))"
        "fst (f parent) = parent \<longrightarrow> c' = c"
    by blast
  from step show ?case
  proof (cases rule: get_step_cases)
    case (arr xs idx j)
    then have j: "j < length xs" by (simp add: py_index_bound)
    have "get_step (JArr (xs[j := c'])) t = Inr c'"
      using arr j by (simp add: get_step_arr py_index_update)
    then show ?thesis using arr c' j by simp
  next
    case (obj kvs)
    have "get_step (JObj (AList.update t c' kvs)) t = Inr c'"
      by (simp add: get_step_obj update_conv')
    then show ?thesis using obj c' by (simp add: update_same)
  qed
qed

lemma get_loop_snoc:
  "get_loop doc (ts @ [t]) =
     (case get_loop doc ts of Inl e \<Rightarrow> Inl e | Inr p \<Rightarrow> get_step p t)"
  by (induction ts arbitrary: doc) (auto split: sum.splits)

section \<open>Token unescaping\<close>

text \<open>
  C7. For every raw token, \<^verbatim>\<open>_unescape_token\<close> (replace \<open>~1\<close> by \<open>/\<close>, then \<open>~0\<close> by
  \<open>~\<close>) gives what the single pass gives that treats the two escapes as independent
  substitutions over the raw token, each escape unescaped once and nothing processed
  twice; the token \<open>~01\<close> becomes \<open>~1\<close>.
\<close>

theorem unescape_token_independent:
  "unescape_token t = unescape_independent t \<and> unescape_token ''~01'' = ''~1''"
proof
  show "unescape_token t = unescape_independent t"
    by (rule unescape_token_single_pass)
  show "unescape_token ''~01'' = ''~1''"
    by (simp add: unescape_token_def)
qed

section \<open>Strict insertion into objects\<close>

text \<open>
  C5. Where the tokens before the last lead to an object that already has the final key,
  \<^verbatim>\<open>pointer_add\<close> raises the \<^verbatim>\<open>KeyError\<close> "Add target exists" (TargetExists) and
  leaves the document as it was: \<^verbatim>\<open>add\<close> inserts and never overwrites. So does the patch
  that consists of this one \<^verbatim>\<open>add\<close>; for the document \<^verbatim>\<open>{"a":1}\<close> and the patch
  \<^verbatim>\<open>[{"op":"add","path":"/a","value":2}]\<close> this is the witness below.
\<close>

theorem pointer_add_target_exists:
  assumes "split_pointer p = Inr (ts @ [t])"
    and "get_loop doc ts = Inr (JObj kvs)"
    and "map_of kvs t = Some old"
  shows "pointer_add doc p v = (doc, Inl (KeyError_add_exists p)) \<and>
         apply_patch doc [JObj [(''op'', JStr ''add''), (''path'', JStr p), (''value'', v)]]
           = (doc, Some (KeyError_add_exists p))"
proof -
  have f: "add_last p t v (JObj kvs) = (JObj kvs, Some (KeyError_add_exists p))"
    using assms(3) by (simp add: add_last_def)
  from ensure_parent_resolved[OF assms(2), of "add_last p t v"] f
  have "ensure_parent (add_last p t v) doc ts = (doc, Some (KeyError_add_exists p))"
    by auto
  then have add: "pointer_add doc p v = (doc, Inl (KeyError_add_exists p))"
    using assms(1) by (simp add: pointer_add_def)
  then show ?thesis
    by (simp add: apply_patch_def apply_op_def op_get_def)
qed

theorem pointer_add_target_exists_witness:
  "split_pointer ''/a'' = Inr ([] @ [''a'']) \<and>
   get_loop (JObj [(''a'', JNum 1)]) [] = Inr (JObj [(''a'', JNum 1)]) \<and>
   map_of [(''a'', JNum 1)] ''a'' = Some (JNum 1) \<and>
   apply_patch (JObj [(''a'', JNum 1)])
     [JObj [(''op'', JStr ''add''), (''path'', JStr ''/a''), (''value'', JNum 2)]]
     = (JObj [(''a'', JNum 1)], Some (KeyError_add_exists ''/a''))"
proof -
  have 1: "split_pointer ''/a'' = Inr ([] @ [''a''])"
    by (simp add: split_pointer_def unescape_token_def)
  have 2: "get_loop (JObj [(''a'', JNum 1)]) [] = Inr (JObj [(''a'', JNum 1)])" by simp
  have 3: "map_of [(''a'', JNum 1)] ''a'' = Some (JNum 1)" by simp
  from pointer_add_target_exists[OF 1 2 3, of "JNum 2"] 1 2 3 show ?thesis by simp
qed

section \<open>Objects created on the way to a failure\<close>

lemma update_absent: "map_of kvs t = None \<Longrightarrow> AList.update t c kvs = kvs @ [(t, c)]"
  by (induction kvs) (auto split: if_splits)

lemma ensure_parent_fresh:
  assumes "f (JObj []) = (JObj [], r)"
  shows "ensure_parent f (JObj []) ts = (nested_empty ts, r)"
  using assms by (induction ts) auto

lemma ensure_parent_absent:
  assumes "map_of kvs t = None" "f (JObj []) = (JObj [], r)"
  shows "ensure_parent f (JObj kvs) (t # ts) = (JObj (kvs @ [(t, nested_empty ts)]), r)"
  using assms by (simp add: ensure_parent_fresh update_absent)

text \<open>
  C10. For an object document and a pointer of at least two tokens \<open>t, ts, l\<close> whose first
  token is a key the document lacks (so that every token before the last names an absent
  key of the object at its level), \<^verbatim>\<open>pointer_remove\<close> and \<^verbatim>\<open>pointer_replace\<close> fail on
  the last token only after empty objects have been written under the absent keys: the
  document they were given has gained the key \<open>t\<close>, and a failed remove or replace has
  changed it.
\<close>

theorem failing_remove_replace_mutate:
  assumes "split_pointer p = Inr (t # ts @ [l])"
    and "map_of kvs t = None"
  shows "pointer_remove (JObj kvs) p
           = (JObj (kvs @ [(t, nested_empty ts)]), Inl (KeyError_key l)) \<and>
         pointer_replace (JObj kvs) p v
           = (JObj (kvs @ [(t, nested_empty ts)]), Inl (KeyError_replace_missing p)) \<and>
         JObj (kvs @ [(t, nested_empty ts)]) \<noteq> JObj kvs"
proof -
  have toks: "last (t # ts @ [l]) = l" "butlast (t # ts @ [l]) = t # ts"
    by (simp_all add: butlast_append)
  have rm: "remove_last l (JObj []) = (JObj [], Some (KeyError_key l))"
    by (simp add: remove_last_def)
  have rp: "replace_last p l v (JObj []) = (JObj [], Some (KeyError_replace_missing p))"
    by (simp add: replace_last_def)
  have "pointer_remove (JObj kvs) p
          = (JObj (kvs @ [(t, nested_empty ts)]), Inl (KeyError_key l))"
    unfolding pointer_remove_def using assms(1) toks
    by (simp add: ensure_parent_absent[where f = "remove_last l", OF assms(2) rm]
        del: ensure_parent.simps)
  moreover have "pointer_replace (JObj kvs) p v
          = (JObj (kvs @ [(t, nested_empty ts)]), Inl (KeyError_replace_missing p))"
    unfolding pointer_replace_def using assms(1) toks
    by (simp add: ensure_parent_absent[where f = "replace_last p l v", OF assms(2) rp]
        del: ensure_parent.simps)
  ultimately show ?thesis by simp
qed

theorem failing_remove_replace_mutate_witness:
  "split_pointer ''/a/b/c'' = Inr (''a'' # [''b''] @ [''c'']) \<and>
   map_of [(''x'', JNum 1)] ''a'' = None \<and>
   pointer_remove (JObj [(''x'', JNum 1)]) ''/a/b/c''
     = (JObj [(''x'', JNum 1), (''a'', JObj [(''b'', JObj [])])], Inl (KeyError_key ''c'')) \<and>
   pointer_replace (JObj [(''x'', JNum 1)]) ''/a/b/c'' JNull
     = (JObj [(''x'', JNum 1), (''a'', JObj [(''b'', JObj [])])],
        Inl (KeyError_replace_missing ''/a/b/c''))"
proof -
  have 1: "split_pointer ''/a/b/c'' = Inr (''a'' # [''b''] @ [''c''])"
    by (simp add: split_pointer_def unescape_token_def)
  have 2: "map_of [(''x'', JNum 1)] ''a'' = None" by simp
  from failing_remove_replace_mutate[OF 1 2, of JNull] 1 2 show ?thesis by simp
qed

section \<open>Reading back what was replaced\<close>

lemma replace_last_resolved:
  assumes "get_step parent t = Inr old"
  shows "\<exists>parent'. replace_last p t v parent = (parent', None) \<and> get_step parent' t = Inr v"
  using assms
proof (cases rule: get_step_cases)
  case (arr xs idx j)
  then have "j < length xs" by (simp add: py_index_bound)
  then have "get_step (JArr (xs[j := v])) t = Inr v"
    using arr by (simp add: get_step_arr py_index_update)
  then show ?thesis using arr by (simp add: replace_last_def)
next
  case (obj kvs)
  have "get_step (JObj (AList.update t v kvs)) t = Inr v"
    by (simp add: get_step_obj update_conv')
  then show ?thesis using obj by (simp add: replace_last_def)
qed

text \<open>
  C8. For every document \<open>d\<close>, value \<open>v\<close> and pointer \<open>p\<close> that resolves in \<open>d\<close>,
  \<^verbatim>\<open>pointer_replace\<close> returns a document, and \<^verbatim>\<open>pointer_get\<close> of that document at \<open>p\<close>
  is \<open>v\<close>.
\<close>

theorem get_after_replace:
  assumes "pointer_get d p = Inr old"
  shows "\<exists>d'. snd (pointer_replace d p v) = Inr d' \<and> pointer_get d' p = Inr v"
proof -
  from assms obtain tokens where sp: "split_pointer p = Inr tokens"
    and gl: "get_loop d tokens = Inr old"
    by (auto simp: pointer_get_def split: sum.splits)
  show ?thesis
  proof (cases tokens rule: rev_cases)
    case Nil
    then show ?thesis using sp by (simp add: pointer_replace_def pointer_get_def)
  next
    case (snoc ts t)
    from gl snoc obtain parent where par: "get_loop d ts = Inr parent"
      and st: "get_step parent t = Inr old"
      by (auto simp: get_loop_snoc split: sum.splits)
    from replace_last_resolved[OF st, of p v] obtain parent' where
      rl: "replace_last p t v parent = (parent', None)" and g': "get_step parent' t = Inr v"
      by blast
    from ensure_parent_resolved[OF par, of "replace_last p t v"] rl obtain d' where
      ep: "ensure_parent (replace_last p t v) d ts = (d', None)"
      and gd: "get_loop d' ts = Inr parent'"
      by auto
    have "snd (pointer_replace d p v) = Inr d'"
      using sp snoc ep by (simp add: pointer_replace_def)
    moreover have "pointer_get d' p = Inr v"
      using sp snoc gd g' by (simp add: pointer_get_def get_loop_snoc)
    ultimately show ?thesis by blast
  qed
qed

theorem get_after_replace_witness:
  "pointer_get (JObj [(''x'', JArr [JNum 1, JNum 2, JNum 3])]) ''/x/1'' = Inr (JNum 2) \<and>
   (\<exists>d'. snd (pointer_replace (JObj [(''x'', JArr [JNum 1, JNum 2, JNum 3])]) ''/x/1''
              (JStr ''v'')) = Inr d' \<and>
         pointer_get d' ''/x/1'' = Inr (JStr ''v''))"
proof -
  have 1: "pointer_get (JObj [(''x'', JArr [JNum 1, JNum 2, JNum 3])]) ''/x/1'' = Inr (JNum 2)"
    by (simp add: pointer_get_def split_pointer_def unescape_token_def get_step_def
        py_int_def strip_def is_space_def py_nat_def max_str_digits_def is_digit_def digit_val_def py_index_def)
  from get_after_replace[OF 1] 1 show ?thesis by simp
qed

section \<open>Array indices\<close>

lemma py_index_iff:
  "py_index xs k = Some j \<longleftrightarrow>
     (- int (length xs) \<le> k \<and> k < int (length xs) \<and>
      j = nat (if k < 0 then k + int (length xs) else k))"
  by (auto simp: py_index_def Let_def)

lemma py_index_None:
  "py_index xs k = None \<longleftrightarrow> \<not> (- int (length xs) \<le> k \<and> k < int (length xs))"
  by (auto simp: py_index_def Let_def)

lemma py_insert_pos_eq:
  "py_insert_pos xs k = (if k < 0 then nat (k + int (length xs)) else min (nat k) (length xs))"
  by (auto simp: py_insert_pos_def Let_def)

text \<open>
  C3, as the code has it. For an array parent \<open>xs\<close> of length \<open>n\<close> and a final token that
  \<^verbatim>\<open>int\<close> reads as \<open>k\<close>: when \<open>k\<close> fits a C \<^verbatim>\<open>ssize_t\<close>, \<^verbatim>\<open>pointer_add\<close> succeeds; it
  inserts the value at position \<open>k\<close>, shifting the elements after it to the right, when
  \<open>0 \<le> k \<le> n\<close>; it appends the value when \<open>k > n\<close>; and for a negative \<open>k\<close> it inserts
  at position \<open>n + k\<close>, or at the front when that is negative. When \<open>k\<close> does not fit,
  \<^verbatim>\<open>list.insert\<close> raises \<^verbatim>\<open>OverflowError\<close> and the document stays as it was. No index is
  rejected as out of range.
\<close>

theorem pointer_add_array_insert:
  assumes "split_pointer p = Inr (ts @ [t])"
    and "get_loop doc ts = Inr (JArr xs)"
    and "py_int t = Some k"
  shows "if - ssize_t_max - 1 \<le> k \<and> k \<le> ssize_t_max
         then \<exists>doc'. pointer_add doc p v = (doc', Inr doc') \<and>
                get_loop doc' ts =
                  Inr (JArr
                    (take (if k < 0 then nat (k + int (length xs)) else min (nat k) (length xs)) xs
                     @ v #
                     drop (if k < 0 then nat (k + int (length xs)) else min (nat k) (length xs)) xs))
         else pointer_add doc p v = (doc, Inl OverflowError)"
proof (cases "- ssize_t_max - 1 \<le> k \<and> k \<le> ssize_t_max")
  case True
  have "t \<noteq> ''-''" using assms(3) py_int_dash by auto
  then have f: "add_last p t v (JArr xs)
      = (JArr (take (py_insert_pos xs k) xs @ v # drop (py_insert_pos xs k) xs), None)"
    using assms(3) True by (simp add: add_last_def py_insert_def)
  from ensure_parent_resolved[OF assms(2), of "add_last p t v"] f obtain doc' where
    ep: "ensure_parent (add_last p t v) doc ts = (doc', None)"
    and gd: "get_loop doc' ts
              = Inr (JArr (take (py_insert_pos xs k) xs @ v # drop (py_insert_pos xs k) xs))"
    by auto
  have "pointer_add doc p v = (doc', Inr doc')"
    using assms(1) ep by (simp add: pointer_add_def)
  then show ?thesis using gd True by (simp add: py_insert_pos_eq)
next
  case False
  have "t \<noteq> ''-''" using assms(3) py_int_dash by auto
  then have f: "add_last p t v (JArr xs) = (JArr xs, Some OverflowError)"
    using assms(3) False by (auto simp: add_last_def py_insert_def)
  from ensure_parent_resolved[OF assms(2), of "add_last p t v"] f
  have "ensure_parent (add_last p t v) doc ts = (doc, Some OverflowError)"
    by auto
  then have "pointer_add doc p v = (doc, Inl OverflowError)"
    using assms(1) by (simp add: pointer_add_def)
  then show ?thesis using False by simp
qed

theorem pointer_add_array_insert_witness:
  "split_pointer ''/x/5'' = Inr ([''x''] @ [''5'']) \<and>
   get_loop (JObj [(''x'', JArr [JNum 1, JNum 2, JNum 3])]) [''x'']
     = Inr (JArr [JNum 1, JNum 2, JNum 3]) \<and>
   py_int ''5'' = Some 5 \<and>
   (\<exists>doc'. pointer_add (JObj [(''x'', JArr [JNum 1, JNum 2, JNum 3])]) ''/x/5'' (JNum 9)
              = (doc', Inr doc') \<and>
      get_loop doc' [''x''] = Inr (JArr [JNum 1, JNum 2, JNum 3, JNum 9])) \<and>
   split_pointer ''/x/9223372036854775808'' = Inr ([''x''] @ [''9223372036854775808'']) \<and>
   py_int ''9223372036854775808'' = Some 9223372036854775808 \<and>
   pointer_add (JObj [(''x'', JArr [JNum 1, JNum 2, JNum 3])]) ''/x/9223372036854775808'' (JNum 9)
     = (JObj [(''x'', JArr [JNum 1, JNum 2, JNum 3])], Inl OverflowError)"
proof -
  have 1: "split_pointer ''/x/5'' = Inr ([''x''] @ [''5''])"
    by (simp add: split_pointer_def unescape_token_def)
  have 2: "get_loop (JObj [(''x'', JArr [JNum 1, JNum 2, JNum 3])]) [''x'']
            = Inr (JArr [JNum 1, JNum 2, JNum 3])"
    by (simp add: get_step_def)
  have 3: "py_int ''5'' = Some 5"
    by (simp add: py_int_def strip_def is_space_def py_nat_def max_str_digits_def
        is_digit_def digit_val_def)
  have 4: "split_pointer ''/x/9223372036854775808'' = Inr ([''x''] @ [''9223372036854775808''])"
    by (simp add: split_pointer_def unescape_token_def)
  have 5: "py_int ''9223372036854775808'' = Some 9223372036854775808"
    by (simp add: py_int_def strip_def is_space_def py_nat_def max_str_digits_def
        is_digit_def digit_val_def)
  from pointer_add_array_insert[OF 1 2 3, of "JNum 9"]
  have a: "\<exists>doc'. pointer_add (JObj [(''x'', JArr [JNum 1, JNum 2, JNum 3])]) ''/x/5'' (JNum 9)
              = (doc', Inr doc') \<and>
      get_loop doc' [''x''] = Inr (JArr [JNum 1, JNum 2, JNum 3, JNum 9])"
    by (simp add: ssize_t_max_def)
  from pointer_add_array_insert[OF 4 2 5, of "JNum 9"]
  have b: "pointer_add (JObj [(''x'', JArr [JNum 1, JNum 2, JNum 3])])
             ''/x/9223372036854775808'' (JNum 9)
           = (JObj [(''x'', JArr [JNum 1, JNum 2, JNum 3])], Inl OverflowError)"
    by (simp add: ssize_t_max_def)
  from 1 2 3 4 5 a b show ?thesis by blast
qed

text \<open>
  Against C3 as stated: on the array \<^verbatim>\<open>[1,2,3]\<close> the tokens \<open>5\<close> and \<open>-1\<close> lie outside
  \<open>[0, 3]\<close>, and \<^verbatim>\<open>pointer_add\<close> raises nothing: it returns \<^verbatim>\<open>[1,2,3,9]\<close> and
  \<^verbatim>\<open>[1,2,9,3]\<close>.
\<close>

theorem pointer_add_array_no_range_check:
  "pointer_add (JArr [JNum 1, JNum 2, JNum 3]) ''/5'' (JNum 9)
     = (JArr [JNum 1, JNum 2, JNum 3, JNum 9], Inr (JArr [JNum 1, JNum 2, JNum 3, JNum 9])) \<and>
   pointer_add (JArr [JNum 1, JNum 2, JNum 3]) ''/-1'' (JNum 9)
     = (JArr [JNum 1, JNum 2, JNum 9, JNum 3], Inr (JArr [JNum 1, JNum 2, JNum 9, JNum 3]))"
  by (simp add: pointer_add_def split_pointer_def unescape_token_def add_last_def
      py_int_def strip_def is_space_def py_nat_def max_str_digits_def is_digit_def digit_val_def
      py_insert_def py_insert_pos_def ssize_t_max_def)

text \<open>
  C4, as the code has it. Where the final token \<open>t\<close> addresses an array \<open>xs\<close> of length
  \<open>n\<close>, \<^verbatim>\<open>pointer_get\<close>, \<^verbatim>\<open>pointer_remove\<close> and \<^verbatim>\<open>pointer_replace\<close> succeed exactly when
  \<^verbatim>\<open>int\<close> reads \<open>t\<close> as an integer \<open>k\<close> with \<open>-n \<le> k < n\<close>, and the element they read,
  delete or overwrite is the one at position \<open>k\<close>, or at \<open>n + k\<close> for a negative \<open>k\<close>.
  Every other token is rejected: with \<^verbatim>\<open>IndexError\<close> when \<open>k\<close> is out of this range,
  with \<^verbatim>\<open>ValueError\<close> (for get and the token \<open>-\<close>, \<^verbatim>\<open>KeyError\<close>) when \<^verbatim>\<open>int\<close> reads no
  integer; remove and replace leave the document as it was then.
\<close>

theorem array_index_accepts:
  assumes "split_pointer p = Inr (ts @ [t])"
    and "get_loop doc ts = Inr (JArr xs)"
  shows "case py_int t of
           None \<Rightarrow>
             pointer_get doc p = Inl (if t = ''-'' then KeyError_dash else ValueError_int t) \<and>
             pointer_remove doc p = (doc, Inl (ValueError_int t)) \<and>
             pointer_replace doc p v = (doc, Inl (ValueError_int t))
         | Some k \<Rightarrow>
             if - int (length xs) \<le> k \<and> k < int (length xs)
             then pointer_get doc p
                    = Inr (xs ! nat (if k < 0 then k + int (length xs) else k)) \<and>
                  (\<exists>d. pointer_remove doc p = (d, Inr d) \<and>
                       get_loop d ts =
                         Inr (JArr (take (nat (if k < 0 then k + int (length xs) else k)) xs @
                                    drop (Suc (nat (if k < 0 then k + int (length xs) else k))) xs))) \<and>
                  (\<exists>d. pointer_replace doc p v = (d, Inr d) \<and>
                       get_loop d ts =
                         Inr (JArr (xs[nat (if k < 0 then k + int (length xs) else k) := v])))
             else pointer_get doc p = Inl IndexError \<and>
                  pointer_remove doc p = (doc, Inl IndexError) \<and>
                  pointer_replace doc p v = (doc, Inl IndexError)"
proof (cases "py_int t")
  case None
  have g: "pointer_get doc p = Inl (if t = ''-'' then KeyError_dash else ValueError_int t)"
    using assms None by (simp add: pointer_get_def get_loop_snoc get_step_def)
  have rm: "remove_last t (JArr xs) = (JArr xs, Some (ValueError_int t))"
    using None by (simp add: remove_last_def)
  have rp: "replace_last p t v (JArr xs) = (JArr xs, Some (ValueError_int t))"
    using None by (simp add: replace_last_def)
  from ensure_parent_resolved[OF assms(2), of "remove_last t"] rm
  have "ensure_parent (remove_last t) doc ts = (doc, Some (ValueError_int t))" by auto
  then have 1: "pointer_remove doc p = (doc, Inl (ValueError_int t))"
    using assms(1) by (simp add: pointer_remove_def)
  from ensure_parent_resolved[OF assms(2), of "replace_last p t v"] rp
  have "ensure_parent (replace_last p t v) doc ts = (doc, Some (ValueError_int t))" by auto
  then have 2: "pointer_replace doc p v = (doc, Inl (ValueError_int t))"
    using assms(1) by (simp add: pointer_replace_def)
  from None g 1 2 show ?thesis by simp
next
  case (Some k)
  then have nd: "t \<noteq> ''-''" using py_int_dash by auto
  show ?thesis
  proof (cases "- int (length xs) \<le> k \<and> k < int (length xs)")
    case True
    define j where "j = nat (if k < 0 then k + int (length xs) else k)"
    have pi: "py_index xs k = Some j" using True by (simp add: py_index_iff j_def)
    have g: "pointer_get doc p = Inr (xs ! j)"
      using assms Some nd pi by (simp add: pointer_get_def get_loop_snoc get_step_def)
    have rm: "remove_last t (JArr xs) = (JArr (take j xs @ drop (Suc j) xs), None)"
      using Some pi by (simp add: remove_last_def del_at_def)
    have rp: "replace_last p t v (JArr xs) = (JArr (xs[j := v]), None)"
      using Some pi by (simp add: replace_last_def)
    from ensure_parent_resolved[OF assms(2), of "remove_last t"] rm obtain d1 where
      "ensure_parent (remove_last t) doc ts = (d1, None)"
      "get_loop d1 ts = Inr (JArr (take j xs @ drop (Suc j) xs))" by auto
    then have 1: "\<exists>d. pointer_remove doc p = (d, Inr d) \<and>
                     get_loop d ts = Inr (JArr (take j xs @ drop (Suc j) xs))"
      using assms(1) by (simp add: pointer_remove_def)
    from ensure_parent_resolved[OF assms(2), of "replace_last p t v"] rp obtain d2 where
      "ensure_parent (replace_last p t v) doc ts = (d2, None)"
      "get_loop d2 ts = Inr (JArr (xs[j := v]))" by auto
    then have 2: "\<exists>d. pointer_replace doc p v = (d, Inr d) \<and>
                     get_loop d ts = Inr (JArr (xs[j := v]))"
      using assms(1) by (simp add: pointer_replace_def)
    from Some True g 1 2 show ?thesis unfolding j_def by simp
  next
    case False
    then have pi: "py_index xs k = None" by (simp add: py_index_None)
    have g: "pointer_get doc p = Inl IndexError"
      using assms Some nd pi by (simp add: pointer_get_def get_loop_snoc get_step_def)
    have rm: "remove_last t (JArr xs) = (JArr xs, Some IndexError)"
      using Some pi by (simp add: remove_last_def)
    have rp: "replace_last p t v (JArr xs) = (JArr xs, Some IndexError)"
      using Some pi by (simp add: replace_last_def)
    from ensure_parent_resolved[OF assms(2), of "remove_last t"] rm
    have "ensure_parent (remove_last t) doc ts = (doc, Some IndexError)" by auto
    then have 1: "pointer_remove doc p = (doc, Inl IndexError)"
      using assms(1) by (simp add: pointer_remove_def)
    from ensure_parent_resolved[OF assms(2), of "replace_last p t v"] rp
    have "ensure_parent (replace_last p t v) doc ts = (doc, Some IndexError)" by auto
    then have 2: "pointer_replace doc p v = (doc, Inl IndexError)"
      using assms(1) by (simp add: pointer_replace_def)
    from Some False g 1 2 show ?thesis by simp
  qed
qed

theorem array_index_accepts_witness:
  "split_pointer ''/x/-2'' = Inr ([''x''] @ [''-2'']) \<and>
   get_loop (JObj [(''x'', JArr [JNum 1, JNum 2, JNum 3])]) [''x'']
     = Inr (JArr [JNum 1, JNum 2, JNum 3]) \<and>
   py_int ''-2'' = Some (- 2) \<and>
   pointer_get (JObj [(''x'', JArr [JNum 1, JNum 2, JNum 3])]) ''/x/-2'' = Inr (JNum 2) \<and>
   (\<exists>d. pointer_remove (JObj [(''x'', JArr [JNum 1, JNum 2, JNum 3])]) ''/x/-2'' = (d, Inr d) \<and>
        get_loop d [''x''] = Inr (JArr [JNum 1, JNum 3])) \<and>
   (\<exists>d. pointer_replace (JObj [(''x'', JArr [JNum 1, JNum 2, JNum 3])]) ''/x/-2'' (JNum 9)
          = (d, Inr d) \<and>
        get_loop d [''x''] = Inr (JArr [JNum 1, JNum 9, JNum 3]))"
proof -
  have 1: "split_pointer ''/x/-2'' = Inr ([''x''] @ [''-2''])"
    by (simp add: split_pointer_def unescape_token_def)
  have 2: "get_loop (JObj [(''x'', JArr [JNum 1, JNum 2, JNum 3])]) [''x'']
            = Inr (JArr [JNum 1, JNum 2, JNum 3])"
    by (simp add: get_step_def)
  have 3: "py_int ''-2'' = Some (- 2)"
    by (simp add: py_int_def strip_def is_space_def py_nat_def max_str_digits_def
        is_digit_def digit_val_def)
  from array_index_accepts[OF 1 2, of "JNum 9"] 1 2 3 show ?thesis by simp
qed

text \<open>
  Against C4 as stated: the token \<open>-1\<close> is a negative integer, and on the array
  \<^verbatim>\<open>[1,2,3]\<close> get returns \<open>3\<close>, remove returns \<^verbatim>\<open>[1,2]\<close> and replace returns
  \<^verbatim>\<open>[1,2,9]\<close>.
\<close>

theorem array_index_negative_accepted:
  "pointer_get (JArr [JNum 1, JNum 2, JNum 3]) ''/-1'' = Inr (JNum 3) \<and>
   pointer_remove (JArr [JNum 1, JNum 2, JNum 3]) ''/-1''
     = (JArr [JNum 1, JNum 2], Inr (JArr [JNum 1, JNum 2])) \<and>
   pointer_replace (JArr [JNum 1, JNum 2, JNum 3]) ''/-1'' (JNum 9)
     = (JArr [JNum 1, JNum 2, JNum 9], Inr (JArr [JNum 1, JNum 2, JNum 9]))"
  by (simp add: pointer_get_def pointer_remove_def pointer_replace_def remove_last_def
      replace_last_def split_pointer_def unescape_token_def get_step_def del_at_def
      py_int_def strip_def is_space_def py_nat_def max_str_digits_def is_digit_def digit_val_def
      py_index_def)

section \<open>Patches\<close>

lemma apply_patch_loop_append:
  "apply_patch_loop i doc (pre @ rest) =
     (case apply_patch_loop i doc pre of
        (d, Some e) \<Rightarrow> (d, Some e)
      | (d, None) \<Rightarrow> apply_patch_loop (i + length pre) d rest)"
  by (induction pre arbitrary: i doc) (auto split: prod.splits option.splits)

lemma split_pointer_a: "split_pointer ''/a'' = Inr [''a'']"
  by (simp add: split_pointer_def unescape_token_def)

lemma split_pointer_b: "split_pointer ''/b'' = Inr [''b'']"
  by (simp add: split_pointer_def unescape_token_def)

lemma split_pointer_bc: "split_pointer ''/b/c'' = Inr [''b'', ''c'']"
  by (simp add: split_pointer_def unescape_token_def)

lemma py_int_a: "py_int ''a'' = None"
  by (simp add: py_int_def strip_def is_space_def py_nat_def max_str_digits_def is_digit_def)

text \<open>
  C1, as the code has it. \<^verbatim>\<open>apply_patch\<close> does not check a patch as a whole before it
  runs. Where a patch holds an \<^verbatim>\<open>add\<close>, \<^verbatim>\<open>replace\<close> or \<^verbatim>\<open>test\<close> without a \<open>value\<close>, the
  operations before it are executed first, in order: if one of them raises, that
  exception is the outcome, with the document as the operations before it left it;
  otherwise the operation without \<open>value\<close> is met with the document they produced, and the
  rest of the patch follows only if it raises nothing.
\<close>

theorem no_whole_patch_precheck:
  assumes "map_of kvs ''value'' = None"
    and "op_get kvs ''op'' = JStr ''add'' \<or> op_get kvs ''op'' = JStr ''replace''
         \<or> op_get kvs ''op'' = JStr ''test''"
  shows "apply_patch doc (pre @ JObj kvs # post) =
           (case apply_patch doc pre of
              (d, Some e) \<Rightarrow> (d, Some e)
            | (d, None) \<Rightarrow>
                (case apply_op (length pre) d (JObj kvs) of
                   (d', Some e) \<Rightarrow> (d', Some e)
                 | (d', None) \<Rightarrow> apply_patch_loop (Suc (length pre)) d' post))"
  by (simp add: apply_patch_def apply_patch_loop_append split: prod.splits option.splits)

theorem no_whole_patch_precheck_witness:
  "map_of [(''op'', JStr ''test''), (''path'', JStr ''/k'')] ''value'' = None \<and>
   op_get [(''op'', JStr ''test''), (''path'', JStr ''/k'')] ''op'' = JStr ''test'' \<and>
   apply_patch (JObj [])
     [JObj [(''op'', JStr ''add''), (''path'', JStr ''/k''), (''value'', JStr ''v'')],
      JObj [(''op'', JStr ''replace''), (''path'', JStr ''/zz''), (''value'', JNum 0)]]
     = (JObj [(''k'', JStr ''v'')], Some (KeyError_replace_missing ''/zz'')) \<and>
   apply_patch (JObj [])
     ([JObj [(''op'', JStr ''add''), (''path'', JStr ''/k''), (''value'', JStr ''v'')],
       JObj [(''op'', JStr ''replace''), (''path'', JStr ''/zz''), (''value'', JNum 0)]]
      @ JObj [(''op'', JStr ''test''), (''path'', JStr ''/k'')]
      # [JObj [(''op'', JStr ''remove'')]])
     = (JObj [(''k'', JStr ''v'')], Some (KeyError_replace_missing ''/zz''))"
proof -
  let ?pre = "[JObj [(''op'', JStr ''add''), (''path'', JStr ''/k''), (''value'', JStr ''v'')],
               JObj [(''op'', JStr ''replace''), (''path'', JStr ''/zz''), (''value'', JNum 0)]]"
  let ?op = "[(''op'', JStr ''test''), (''path'', JStr ''/k'')]"
  have 1: "map_of ?op ''value'' = None" by simp
  have 2: "op_get ?op ''op'' = JStr ''add'' \<or> op_get ?op ''op'' = JStr ''replace''
           \<or> op_get ?op ''op'' = JStr ''test''"
    by (simp add: op_get_def)
  have 3: "apply_patch (JObj []) ?pre
             = (JObj [(''k'', JStr ''v'')], Some (KeyError_replace_missing ''/zz''))"
    by (simp add: apply_patch_def apply_op_def op_get_def pointer_add_def pointer_replace_def
        split_pointer_def unescape_token_def add_last_def replace_last_def)
  from no_whole_patch_precheck[OF 1 2, of "JObj []" ?pre "[JObj [(''op'', JStr ''remove'')]]"] 3
  have "apply_patch (JObj []) (?pre @ JObj ?op # [JObj [(''op'', JStr ''remove'')]])
          = (JObj [(''k'', JStr ''v'')], Some (KeyError_replace_missing ''/zz''))"
    by simp
  with 1 3 show ?thesis by (simp add: op_get_def)
qed

text \<open>
  Against C1 as stated: the patch below ends with an \<^verbatim>\<open>add\<close> that has no \<open>value\<close>.
  Applied to \<^verbatim>\<open>{}\<close>, its first operation adds \<open>x\<close>, its second raises the \<^verbatim>\<open>KeyError\<close> of
  a missing key, and the document is \<^verbatim>\<open>{"x": 1}\<close>: not the error of a malformed
  operation, and not the document unchanged.
\<close>

theorem valueless_op_after_changes:
  "apply_patch (JObj [])
     [JObj [(''op'', JStr ''add''), (''path'', JStr ''/x''), (''value'', JNum 1)],
      JObj [(''op'', JStr ''remove''), (''path'', JStr ''/nope'')],
      JObj [(''op'', JStr ''add''), (''path'', JStr ''/a'')]]
     = (JObj [(''x'', JNum 1)], Some (KeyError_key ''nope''))"
  by (simp add: apply_patch_def apply_op_def op_get_def pointer_add_def pointer_remove_def
      split_pointer_def unescape_token_def add_last_def remove_last_def)

text \<open>
  C2, as the code has it. In a document where \<open>/a\<close> resolves and \<open>/b\<close> does not, the
  single operation \<^verbatim>\<open>move\<close> from \<open>/a\<close> to \<open>/b/c\<close> succeeds: the document is an object,
  the key \<open>a\<close> is removed, and \<^verbatim>\<open>_ensure_parent\<close> creates the object \<open>b\<close>, which receives
  the value under \<open>c\<close>.
\<close>

theorem move_creates_parent:
  assumes "pointer_get doc ''/a'' = Inr val"
    and "pointer_get doc ''/b'' = Inl e"
  shows "\<exists>kvs. doc = JObj kvs \<and>
           apply_patch doc
             [JObj [(''op'', JStr ''move''), (''from'', JStr ''/a''), (''path'', JStr ''/b/c'')]]
           = (JObj (AList.delete ''a'' kvs @ [(''b'', JObj [(''c'', val)])]), None)"
proof -
  from assms(1) have "get_step doc ''a'' = Inr val"
    by (simp add: pointer_get_def split_pointer_a split: sum.splits)
  then obtain kvs where doc: "doc = JObj kvs" and a: "map_of kvs ''a'' = Some val"
    by (cases rule: get_step_cases) (simp_all add: py_int_a)
  from assms(2) doc have b: "map_of kvs ''b'' = None"
    by (simp add: pointer_get_def split_pointer_b get_step_def split: option.splits)
  have rm: "pointer_remove doc ''/a''
              = (JObj (AList.delete ''a'' kvs), Inr (JObj (AList.delete ''a'' kvs)))"
    using doc a by (simp add: pointer_remove_def split_pointer_a remove_last_def)
  have b': "map_of (AList.delete ''a'' kvs) ''b'' = None"
    using b by (simp add: delete_conv')
  have add: "pointer_add (JObj (AList.delete ''a'' kvs)) ''/b/c'' val
      = (JObj (AList.delete ''a'' kvs @ [(''b'', JObj [(''c'', val)])]),
         Inr (JObj (AList.delete ''a'' kvs @ [(''b'', JObj [(''c'', val)])])))"
    using b' by (simp add: pointer_add_def split_pointer_bc add_last_def update_absent)
  have "apply_patch doc
             [JObj [(''op'', JStr ''move''), (''from'', JStr ''/a''), (''path'', JStr ''/b/c'')]]
           = (JObj (AList.delete ''a'' kvs @ [(''b'', JObj [(''c'', val)])]), None)"
    using assms(1) rm add by (simp add: apply_patch_def apply_op_def op_get_def)
  then show ?thesis using doc by simp
qed

theorem move_creates_parent_witness:
  "pointer_get (JObj [(''a'', JNum 1), (''z'', JNull)]) ''/a'' = Inr (JNum 1) \<and>
   pointer_get (JObj [(''a'', JNum 1), (''z'', JNull)]) ''/b'' = Inl (KeyError_key ''b'') \<and>
   apply_patch (JObj [(''a'', JNum 1), (''z'', JNull)])
     [JObj [(''op'', JStr ''move''), (''from'', JStr ''/a''), (''path'', JStr ''/b/c'')]]
     = (JObj [(''z'', JNull), (''b'', JObj [(''c'', JNum 1)])], None)"
proof -
  have 1: "pointer_get (JObj [(''a'', JNum 1), (''z'', JNull)]) ''/a'' = Inr (JNum 1)"
    by (simp add: pointer_get_def split_pointer_a get_step_def)
  have 2: "pointer_get (JObj [(''a'', JNum 1), (''z'', JNull)]) ''/b'' = Inl (KeyError_key ''b'')"
    by (simp add: pointer_get_def split_pointer_b get_step_def)
  from move_creates_parent[OF 1 2] 1 2 show ?thesis by (auto simp: AList.delete_eq)
qed

text \<open>
  Against C2 as stated: on \<^verbatim>\<open>{"a":1}\<close> the move from \<open>/a\<close> to \<open>/b/c\<close> raises nothing
  and returns \<^verbatim>\<open>{"b":{"c":1}}\<close>, which is not the state between the remove and the add.
\<close>

theorem move_into_absent_parent_succeeds:
  "apply_patch (JObj [(''a'', JNum 1)])
     [JObj [(''op'', JStr ''move''), (''from'', JStr ''/a''), (''path'', JStr ''/b/c'')]]
     = (JObj [(''b'', JObj [(''c'', JNum 1)])], None)"
  by (simp add: apply_patch_def apply_op_def op_get_def pointer_get_def pointer_remove_def
      pointer_add_def split_pointer_a split_pointer_bc get_step_def remove_last_def add_last_def
      AList.delete_eq)

section \<open>The comparison made by test\<close>













section \<open>The backup written by a commit\<close>

lemma mkstemp_dash:
  "\<exists>a. mkstemp e ''.jsontmp-'' d = a @ ''-'' @ random_name e"
  by (simp add: mkstemp_def path_join_def)

lemma tmp_not_backup:
  assumes "length (random_name e) = 8" and "8 \<le> length h"
  shows "mkstemp e ''.jsontmp-'' d \<noteq> path @ ''.bak.'' @ ts @ ''.'' @ take 8 h"
proof
  assume eq: "mkstemp e ''.jsontmp-'' d = path @ ''.bak.'' @ ts @ ''.'' @ take 8 h"
  from mkstemp_dash obtain a where a: "mkstemp e ''.jsontmp-'' d = a @ ''-'' @ random_name e"
    by blast
  have len: "length (random_name e) = length (take 8 h)" using assms by simp
  from eq a have "(a @ ''-'') @ random_name e = (path @ ''.bak.'' @ ts @ ''.'') @ take 8 h"
    by simp
  then have "a @ ''-'' = path @ ''.bak.'' @ ts @ ''.''"
    using len append_eq_append_conv by blast
  then have "last (a @ ''-'') = last (path @ ''.bak.'' @ ts @ ''.'')" by simp
  then show False by simp
qed

text \<open>
  C9. When \<^verbatim>\<open>write_atomic\<close> is called with \<open>make_backup\<close> true on a path that exists with
  content \<open>old\<close>, then in the files as they are when the temporary file is renamed onto
  the path, the path still holds \<open>old\<close> and a copy of \<open>old\<close> is at the sibling path
  \<open>path.bak.YYYYMMDDThhmmssZ.hhhhhhhh\<close>, made of the UTC time and the first eight
  characters of the new content's digest; after the rename the copy is still there and
  the path holds the new content. The temporary file is one \<^verbatim>\<open>mkstemp\<close> has newly
  created, with eight random characters in its name, and the digest is the 64 characters
  of a SHA-256 hex digest.
\<close>

theorem backup_before_rename:
  assumes "files path = Some old"
    and "files (mkstemp e ''.jsontmp-'' (abs_dirname e path)) = None"
    and "length (random_name e) = 8"
    and "length (hexdigest e (json_dumps e obj)) = 64"
  shows "write_atomic_staged e path obj True files
           (path @ ''.bak.'' @
            pad4 (year (utcnow e)) @ pad2 (month (utcnow e)) @ pad2 (day (utcnow e)) @ ''T'' @
            pad2 (hour (utcnow e)) @ pad2 (minute (utcnow e)) @ pad2 (second (utcnow e)) @
            ''Z'' @ ''.'' @ take 8 (hexdigest e (json_dumps e obj))) = Some old \<and>
         write_atomic_staged e path obj True files path = Some old \<and>
         write_atomic e path obj True files
           = (os_replace (mkstemp e ''.jsontmp-'' (abs_dirname e path)) path
                (write_atomic_staged e path obj True files),
              path, sha256_bytes e (json_dumps e obj)) \<and>
         fst (write_atomic e path obj True files)
           (path @ ''.bak.'' @
            pad4 (year (utcnow e)) @ pad2 (month (utcnow e)) @ pad2 (day (utcnow e)) @ ''T'' @
            pad2 (hour (utcnow e)) @ pad2 (minute (utcnow e)) @ pad2 (second (utcnow e)) @
            ''Z'' @ ''.'' @ take 8 (hexdigest e (json_dumps e obj))) = Some old \<and>
         fst (write_atomic e path obj True files) path = Some (json_dumps e obj)"
proof -
  let ?tmp = "mkstemp e ''.jsontmp-'' (abs_dirname e path)"
  let ?bak = "path @ ''.bak.'' @ strftime (utcnow e) @ ''.'' @
              take 8 (hexdigest e (json_dumps e obj))"
  have tp: "?tmp \<noteq> path" using assms(1,2) by auto
  have bp: "?bak \<noteq> path" by simp
  have tb: "?tmp \<noteq> ?bak"
    by (rule tmp_not_backup) (use assms(3,4) in simp_all)
  have st: "write_atomic_staged e path obj True files
              = (files(?tmp \<mapsto> json_dumps e obj))(?bak := Some old)"
    using assms(1) tp
    by (simp add: write_atomic_staged_def write_bytes_def copy2_def Let_def sha256_bytes_def)
  show ?thesis
    unfolding st write_atomic_def
    using tp bp tb assms(1)
    by (simp add: os_replace_def strftime_def sha256_bytes_def)
qed

theorem backup_before_rename_witness:
  "[''/d/plan.json'' \<mapsto> ''[1]''] ''/d/plan.json'' = Some ''[1]'' \<and>
   [''/d/plan.json'' \<mapsto> ''[1]'']
     (mkstemp ex_env ''.jsontmp-'' (abs_dirname ex_env ''/d/plan.json'')) = None \<and>
   length (random_name ex_env) = 8 \<and>
   length (hexdigest ex_env (json_dumps ex_env (JObj []))) = 64 \<and>
   write_atomic_staged ex_env ''/d/plan.json'' (JObj []) True [''/d/plan.json'' \<mapsto> ''[1]'']
     ''/d/plan.json.bak.20261103T172500Z.44136fa3'' = Some ''[1]'' \<and>
   write_atomic_staged ex_env ''/d/plan.json'' (JObj []) True [''/d/plan.json'' \<mapsto> ''[1]'']
     ''/d/plan.json'' = Some ''[1]'' \<and>
   fst (write_atomic ex_env ''/d/plan.json'' (JObj []) True [''/d/plan.json'' \<mapsto> ''[1]''])
     ''/d/plan.json.bak.20261103T172500Z.44136fa3'' = Some ''[1]'' \<and>
   fst (write_atomic ex_env ''/d/plan.json'' (JObj []) True [''/d/plan.json'' \<mapsto> ''[1]''])
     ''/d/plan.json'' = Some ''{}''"
proof -
  have b: "''/d/plan.json'' @ ''.bak.'' @
            pad4 (year (utcnow ex_env)) @ pad2 (month (utcnow ex_env)) @
            pad2 (day (utcnow ex_env)) @ ''T'' @
            pad2 (hour (utcnow ex_env)) @ pad2 (minute (utcnow ex_env)) @
            pad2 (second (utcnow ex_env)) @
            ''Z'' @ ''.'' @ take 8 (hexdigest ex_env (json_dumps ex_env (JObj [])))
           = ''/d/plan.json.bak.20261103T172500Z.44136fa3''"
    by (simp add: ex_env_def pad4_def pad2_def digit_char_def)
  have 1: "[''/d/plan.json'' \<mapsto> ''[1]''] ''/d/plan.json'' = Some ''[1]''" by simp
  have 2: "[''/d/plan.json'' \<mapsto> ''[1]'']
             (mkstemp ex_env ''.jsontmp-'' (abs_dirname ex_env ''/d/plan.json'')) = None"
    by (simp add: ex_env_def mkstemp_def path_join_def)
  have 3: "length (random_name ex_env) = 8" by (simp add: ex_env_def)
  have 4: "length (hexdigest ex_env (json_dumps ex_env (JObj []))) = 64"
    by (simp add: ex_env_def)
  have d: "json_dumps ex_env (JObj []) = ''{}''" by (simp add: ex_env_def)
  note th = backup_before_rename[OF 1 2 3 4, unfolded b, unfolded d]
  from th 1 2 3 4 show ?thesis by blast
qed

end
